theory Spec2Isabelle
  imports Complex_Main "HOL-Library.Word"
begin

unbundle bit_operations_syntax

section \<open>Build targets\<close>

text \<open>
  simddetect.cpp is compiled in one of three ways, chosen by the preprocessor:
  \<^item> \<open>X86_BUILD\<close> with \<open>__GNUC__\<close>: detection through \<open>cpuid.h\<close>;
  \<^item> \<open>X86_BUILD\<close> without \<open>__GNUC__\<close> but with \<open>_WIN32\<close>: detection through
    \<open>intrin.h\<close>;
  \<^item> no \<open>X86_BUILD\<close>: no detection code at all.
  The fourth combination (\<open>X86_BUILD\<close> with neither compiler) stops at \<open>#error\<close> and
  yields no program.
\<close>

datatype build = X86_GNUC | X86_WIN32 | NOT_X86

fun X86_BUILD :: "build \<Rightarrow> bool" where
  "X86_BUILD X86_GNUC = True"
| "X86_BUILD X86_WIN32 = True"
| "X86_BUILD NOT_X86 = False"

section \<open>The processor\<close>

type_synonym u32 = "32 word"

record regs =
  eax :: u32
  ebx :: u32
  ecx :: u32
  edx :: u32

text \<open>
  The CPUID instruction is reached through compiler intrinsics, which are parameters of
  the model:
  \<^item> \<open>get_cpuid leaf\<close> is \<open>__get_cpuid(leaf, &eax, &ebx, &ecx, &edx)\<close> of
    \<open>cpuid.h\<close>: \<open>None\<close> when it returns 0 (the registers are then not written),
    the four registers otherwise;
  \<^item> \<open>cpuid_count leaf sub\<close> is the macro \<open>__cpuid_count(leaf, sub, eax, ebx, ecx, edx)\<close>;
  \<^item> \<open>cpuid leaf\<close> is \<open>__cpuid(cpuInfo, leaf)\<close> of \<open>intrin.h\<close>, with
    \<open>cpuInfo[0..3]\<close> read as \<open>eax\<close>, \<open>ebx\<close>, \<open>ecx\<close>, \<open>edx\<close>.
\<close>

record cpu =
  get_cpuid :: "u32 \<Rightarrow> regs option"
  cpuid_count :: "u32 \<Rightarrow> u32 \<Rightarrow> regs"
  cpuid :: "u32 \<Rightarrow> regs"

section \<open>C strings\<close>

definition NUL :: char where
  "NUL = CHR 0x00"

definition newline :: char where
  "newline = CHR 0x0A"

text \<open>
  A \<open>const char*\<close> is read up to its terminator. A \<open>string\<close> of the model is the
  content of the buffer; the end of the list counts as a terminator, and so does the
  first \<open>NUL\<close> in it. \<open>c_str\<close> is what \<open>%s\<close> prints and what a copy of the
  C string holds.
\<close>

definition c_str :: "string \<Rightarrow> string" where
  "c_str xs = takeWhile (\<lambda>c. c \<noteq> NUL) xs"

text \<open>
  \<open>strcmp\<close> of the C library, on unsigned bytes; only the sign of a non-zero result
  is specified, so \<open>-1\<close> and \<open>1\<close> stand for it.
\<close>

fun strcmp :: "string \<Rightarrow> string \<Rightarrow> int" where
  "strcmp [] [] = 0"
| "strcmp [] (b # bs) = (if b = NUL then 0 else - 1)"
| "strcmp (a # as) [] = (if a = NUL then 0 else 1)"
| "strcmp (a # as) (b # bs) =
     (if a = b then (if a = NUL then 0 else strcmp as bs)
      else if (of_char a :: nat) < of_char b then - 1 else 1)"

section \<open>Dot product kernels\<close>

text \<open>
  \<open>DotProductFunction\<close> is a pointer to one of the four kernels the file names.
  \<open>DotProductGeneric\<close> is defined in the file; the other three come from
  \<open>dotproduct.h\<close>, \<open>dotproductavx.h\<close> and \<open>dotproductsse.h\<close>.
\<close>

datatype DotProductFunction =
  DotProductGeneric_ptr | DotProductSSE_ptr | DotProductAVX_ptr | DotProductNative_ptr

text \<open>
  The arithmetic of \<open>double\<close> is a parameter: the constant \<open>0.0\<close>, addition and
  multiplication. No law is assumed of them.
\<close>

record 'a arith =
  zero :: 'a
  add :: "'a \<Rightarrow> 'a \<Rightarrow> 'a"
  mul :: "'a \<Rightarrow> 'a \<Rightarrow> 'a"






section \<open>The globals\<close>

text \<open>
  \<^item> \<open>DotProduct\<close>: the global function pointer; \<open>None\<close> is the null pointer.
  \<^item> \<open>dotproduct\<close>: the value of the configuration variable declared by
    \<open>STRING_VAR(dotproduct, "auto", ...)\<close>.
  \<^item> the five static flags of \<open>SIMDDetect\<close> (the source writes them with a
    trailing underscore).
  \<^item> \<open>tprintf_out\<close>: the lines handed to \<open>tprintf\<close> so far, oldest first.
\<close>

record state =
  DotProduct :: "DotProductFunction option"
  dotproduct :: string
  avx_available :: bool
  avx2_available :: bool
  avx512F_available :: bool
  avx512BW_available :: bool
  sse_available :: bool
  tprintf_out :: "string list"

text \<open>
  The globals before any constructor runs: objects of static storage duration are
  zero-initialised (a null pointer, five times \<open>false\<close>), and \<open>STRING_VAR\<close> gives the
  variable its default \<open>"auto"\<close>.
\<close>

definition static_init :: state where
  "static_init =
     \<lparr>DotProduct = None, dotproduct = ''auto'',
      avx_available = False, avx2_available = False, avx512F_available = False,
      avx512BW_available = False, sse_available = False, tprintf_out = []\<rparr>"

text \<open>
  Modelled from the spec: \<open>dotproduct.string()\<close> of \<open>params.h\<close>, which is not under
  src/. It reads the stored value of the configuration variable as a \<open>const char*\<close>.
\<close>

definition string_of :: "state \<Rightarrow> string" where
  "string_of s = dotproduct s"

text \<open>
  Modelled from the spec: \<open>dotproduct.set_value(p)\<close> of \<open>params.h\<close>, which is not
  under src/. It writes the C string at \<open>p\<close> into the configuration store, replacing
  the stored value.
\<close>

definition set_value :: "string \<Rightarrow> state \<Rightarrow> state" where
  "set_value p s = s\<lparr>dotproduct := c_str p\<rparr>"

text \<open>
  Modelled from the spec: \<open>tprintf\<close> of \<open>tprintf.h\<close>, which is not under src/. It
  emits one formatted line to the diagnostic stream; the argument is the line after the
  substitution of \<open>%s\<close>.
\<close>

definition tprintf :: "string \<Rightarrow> state \<Rightarrow> state" where
  "tprintf line s = s\<lparr>tprintf_out := tprintf_out s @ [line]\<rparr>"

section \<open>SIMDDetect\<close>

definition SetDotProduct :: "DotProductFunction \<Rightarrow> state \<Rightarrow> state" where
  "SetDotProduct function s = s\<lparr>DotProduct := Some function\<rparr>"

text \<open>The \<open>__GNUC__\<close> branch of the constructor (lines 89 to 104).\<close>

definition detect_gnuc :: "cpu \<Rightarrow> state \<Rightarrow> state" where
  "detect_gnuc c s =
     (case get_cpuid c 1 of
        None \<Rightarrow> s
      | Some r \<Rightarrow>
          (let s1 = s\<lparr>sse_available := (ecx r AND 0x00080000 \<noteq> 0)\<rparr>;
               s2 = s1\<lparr>avx_available := (ecx r AND 0x10000000 \<noteq> 0)\<rparr>
           in if avx_available s2 then
                (let r7 = cpuid_count c 7 0;
                     s3 = s2\<lparr>avx2_available := (ebx r7 AND 0x00000020 \<noteq> 0)\<rparr>;
                     s4 = s3\<lparr>avx512F_available := (ebx r7 AND 0x00010000 \<noteq> 0)\<rparr>
                 in s4\<lparr>avx512BW_available := (ebx r7 AND 0x40000000 \<noteq> 0)\<rparr>)
              else s2))"

text \<open>
  The \<open>_WIN32\<close> branch (lines 106 to 112). \<open>cpuInfo\<close> is an array of \<open>int\<close>, so
  \<open>cpuInfo[0] >= 1\<close> is a signed comparison.
\<close>

definition detect_win32 :: "cpu \<Rightarrow> state \<Rightarrow> state" where
  "detect_win32 c s =
     (let cpuInfo = cpuid c 0
      in if 1 \<le> sint (eax cpuInfo) then
           (let cpuInfo = cpuid c 1;
                s1 = s\<lparr>sse_available := (ecx cpuInfo AND 0x00080000 \<noteq> 0)\<rparr>
            in s1\<lparr>avx_available := (ecx cpuInfo AND 0x10000000 \<noteq> 0)\<rparr>)
         else s)"

text \<open>The constructor \<open>SIMDDetect::SIMDDetect()\<close>.\<close>

definition SIMDDetect :: "build \<Rightarrow> cpu \<Rightarrow> state \<Rightarrow> state" where
  "SIMDDetect b c s =
     (let s1 = SetDotProduct DotProductGeneric_ptr s;
          s2 = (case b of
                  X86_GNUC \<Rightarrow> detect_gnuc c s1
                | X86_WIN32 \<Rightarrow> detect_win32 c s1
                | NOT_X86 \<Rightarrow> s1)
      in if X86_BUILD b then
           (if avx_available s2 then SetDotProduct DotProductAVX_ptr s2
            else if sse_available s2 then SetDotProduct DotProductSSE_ptr s2
            else s2)
         else s2)"

text \<open>
  \<open>SIMDDetect::Update()\<close>. The pair carries the globals and the local
  \<open>dotproduct_method\<close> out of the chain of branches.
\<close>

definition Update :: "build \<Rightarrow> state \<Rightarrow> state" where
  "Update b s =
     (let dotproduct_method = ''generic'';
          (s', dotproduct_method) =
            (if strcmp (string_of s) ''auto'' = 0 then (s, dotproduct_method)
             else if strcmp (string_of s) ''generic'' = 0 then
               (SetDotProduct DotProductGeneric_ptr s, ''generic'')
             else if strcmp (string_of s) ''native'' = 0 then
               (SetDotProduct DotProductNative_ptr s, ''native'')
             else if X86_BUILD b \<and> strcmp (string_of s) ''avx'' = 0 then
               (SetDotProduct DotProductAVX_ptr s, ''avx'')
             else if X86_BUILD b \<and> strcmp (string_of s) ''sse'' = 0 then
               (SetDotProduct DotProductSSE_ptr s, ''sse'')
             else
               (tprintf
                  (''Support values for dotproduct: auto generic native''
                     @ (if X86_BUILD b then '' avx sse'' else '''') @ ''.'' @ [newline])
                  (tprintf
                     (''Warning, ignoring unsupported config variable value: dotproduct=''
                        @ c_str (string_of s) @ [newline])
                     s),
                dotproduct_method))
      in set_value dotproduct_method s')"

text \<open>
  The spec's \<open>apply(preference)\<close>: the configuration subsystem stores the preference,
  then \<open>Update\<close> runs.
\<close>

definition apply_preference :: "build \<Rightarrow> string \<Rightarrow> state \<Rightarrow> state" where
  "apply_preference b x s = Update b (s\<lparr>dotproduct := x\<rparr>)"

text \<open>Any number of preferences applied one after the other.\<close>

fun apply_all :: "build \<Rightarrow> string list \<Rightarrow> state \<Rightarrow> state" where
  "apply_all b [] s = s"
| "apply_all b (x # xs) s = apply_all b xs (apply_preference b x s)"

text \<open>The vocabulary accepted on a build target (spec, section 6).\<close>

definition accepted :: "build \<Rightarrow> string list" where
  "accepted b =
     [''auto'', ''generic'', ''native''] @ (if X86_BUILD b then [''avx'', ''sse''] else [])"

section \<open>Values used in examples\<close>

text \<open>
  A processor whose leaf 1 reports SSE4.1 (bit 19 of \<open>ecx\<close>) and no AVX; its leaf 7
  would report every extension.
\<close>

definition sse_only_cpu :: cpu where
  "sse_only_cpu =
     \<lparr>get_cpuid = (\<lambda>leaf. if leaf = 1 then Some \<lparr>eax = 0, ebx = 0, ecx = 0x00080000, edx = 0\<rparr>
                          else None),
      cpuid_count = (\<lambda>leaf sub. \<lparr>eax = 0, ebx = 0xFFFFFFFF, ecx = 0, edx = 0\<rparr>),
      cpuid = (\<lambda>leaf. if leaf = 0 then \<lparr>eax = 1, ebx = 0, ecx = 0, edx = 0\<rparr>
                      else \<lparr>eax = 0, ebx = 0, ecx = 0x00080000, edx = 0\<rparr>)\<rparr>"

text \<open>
  A processor whose leaf 1 reports SSE4.1 and AVX (bits 19 and 28 of \<open>ecx\<close>) and
  whose leaf 7 reports AVX2 (bit 5 of \<open>ebx\<close>).
\<close>

definition avx_cpu :: cpu where
  "avx_cpu =
     \<lparr>get_cpuid = (\<lambda>leaf. if leaf = 1 then Some \<lparr>eax = 0, ebx = 0, ecx = 0x10080000, edx = 0\<rparr>
                          else None),
      cpuid_count = (\<lambda>leaf sub. \<lparr>eax = 0, ebx = 0x00000020, ecx = 0, edx = 0\<rparr>),
      cpuid = (\<lambda>leaf. if leaf = 0 then \<lparr>eax = 7, ebx = 0, ecx = 0, edx = 0\<rparr>
                      else \<lparr>eax = 0, ebx = 0, ecx = 0x10080000, edx = 0\<rparr>)\<rparr>"


section \<open>The arithmetic of double\<close>





section \<open>Strings\<close>

lemma strcmp_eq_0_iff: "strcmp xs ys = 0 \<longleftrightarrow> c_str xs = c_str ys"
  by (induction xs ys rule: strcmp.induct) (auto simp: c_str_def)

lemma c_str_literals:
  "c_str ''auto'' = ''auto''" "c_str ''generic'' = ''generic''"
  "c_str ''native'' = ''native''" "c_str ''avx'' = ''avx''" "c_str ''sse'' = ''sse''"
  by (simp_all add: c_str_def NUL_def)

section \<open>The branches of Update\<close>

lemma Update_auto:
  "c_str (dotproduct s) = ''auto'' \<Longrightarrow> Update b s = s\<lparr>dotproduct := ''generic''\<rparr>"
  by (simp add: Update_def string_of_def set_value_def strcmp_eq_0_iff c_str_literals)

lemma Update_generic:
  "c_str (dotproduct s) = ''generic'' \<Longrightarrow>
   Update b s = s\<lparr>DotProduct := Some DotProductGeneric_ptr, dotproduct := ''generic''\<rparr>"
  by (simp add: Update_def string_of_def set_value_def SetDotProduct_def strcmp_eq_0_iff
      c_str_literals)

lemma Update_native:
  "c_str (dotproduct s) = ''native'' \<Longrightarrow>
   Update b s = s\<lparr>DotProduct := Some DotProductNative_ptr, dotproduct := ''native''\<rparr>"
  by (simp add: Update_def string_of_def set_value_def SetDotProduct_def strcmp_eq_0_iff
      c_str_literals)

lemma Update_avx:
  "X86_BUILD b \<Longrightarrow> c_str (dotproduct s) = ''avx'' \<Longrightarrow>
   Update b s = s\<lparr>DotProduct := Some DotProductAVX_ptr, dotproduct := ''avx''\<rparr>"
  by (simp add: Update_def string_of_def set_value_def SetDotProduct_def strcmp_eq_0_iff
      c_str_literals)

lemma Update_sse:
  "X86_BUILD b \<Longrightarrow> c_str (dotproduct s) = ''sse'' \<Longrightarrow>
   Update b s = s\<lparr>DotProduct := Some DotProductSSE_ptr, dotproduct := ''sse''\<rparr>"
  by (simp add: Update_def string_of_def set_value_def SetDotProduct_def strcmp_eq_0_iff
      c_str_literals)

lemma Update_rejected:
  assumes "c_str (dotproduct s) \<notin> set (accepted b)"
  shows "Update b s =
     s\<lparr>tprintf_out := tprintf_out s @
          [''Warning, ignoring unsupported config variable value: dotproduct=''
             @ c_str (dotproduct s) @ [newline],
           ''Support values for dotproduct: auto generic native''
             @ (if X86_BUILD b then '' avx sse'' else '''') @ ''.'' @ [newline]],
       dotproduct := ''generic''\<rparr>"
proof (cases "X86_BUILD b")
  case True
  with assms show ?thesis
    by (simp add: Update_def string_of_def set_value_def tprintf_def strcmp_eq_0_iff
        c_str_literals accepted_def)
next
  case False
  with assms show ?thesis
    by (simp add: Update_def string_of_def set_value_def tprintf_def strcmp_eq_0_iff
        c_str_literals accepted_def)
qed

lemma Update_cases:
  obtains (auto) "c_str (dotproduct s) = ''auto''"
  | (generic) "c_str (dotproduct s) = ''generic''"
  | (native) "c_str (dotproduct s) = ''native''"
  | (avx) "X86_BUILD b" "c_str (dotproduct s) = ''avx''"
  | (sse) "X86_BUILD b" "c_str (dotproduct s) = ''sse''"
  | (rejected) "c_str (dotproduct s) \<notin> set (accepted b)"
  by (auto simp: accepted_def)

lemma apply_auto: "apply_preference b ''auto'' s = s\<lparr>dotproduct := ''generic''\<rparr>"
  by (simp add: apply_preference_def Update_auto c_str_literals)


lemma apply_avx:
  "X86_BUILD b \<Longrightarrow> apply_preference b ''avx'' s =
     s\<lparr>DotProduct := Some DotProductAVX_ptr, dotproduct := ''avx''\<rparr>"
  by (simp add: apply_preference_def Update_avx c_str_literals)

lemma apply_sse:
  "X86_BUILD b \<Longrightarrow> apply_preference b ''sse'' s =
     s\<lparr>DotProduct := Some DotProductSSE_ptr, dotproduct := ''sse''\<rparr>"
  by (simp add: apply_preference_def Update_sse c_str_literals)

lemma apply_rejected:
  assumes "c_str x \<notin> set (accepted b)"
  shows "apply_preference b x s =
     s\<lparr>tprintf_out := tprintf_out s @
          [''Warning, ignoring unsupported config variable value: dotproduct=''
             @ c_str x @ [newline],
           ''Support values for dotproduct: auto generic native''
             @ (if X86_BUILD b then '' avx sse'' else '''') @ ''.'' @ [newline]],
       dotproduct := ''generic''\<rparr>"
  using assms by (simp add: apply_preference_def Update_rejected)

lemma Update_DotProduct_bound:
  "DotProduct s \<noteq> None \<Longrightarrow> DotProduct (Update b s) \<noteq> None"
  by (rule Update_cases [where s = s and b = b])
    (simp_all add: Update_auto Update_generic Update_native Update_avx Update_sse
      Update_rejected)

lemma apply_all_DotProduct_bound:
  "DotProduct s \<noteq> None \<Longrightarrow> DotProduct (apply_all b xs s) \<noteq> None"
proof (induction xs arbitrary: s)
  case Nil
  then show ?case by simp
next
  case (Cons x xs)
  have "DotProduct (apply_preference b x s) \<noteq> None"
    unfolding apply_preference_def using Cons.prems
    by (intro Update_DotProduct_bound) simp
  then show ?case by (simp add: Cons.IH)
qed

section \<open>The constructor\<close>

lemma test_bit_mask:
  fixes w :: u32
  shows "(w AND 0x00080000 \<noteq> 0) = bit w 19"
    and "(w AND 0x10000000 \<noteq> 0) = bit w 28"
    and "(w AND 0x00000020 \<noteq> 0) = bit w 5"
    and "(w AND 0x00010000 \<noteq> 0) = bit w 16"
    and "(w AND 0x40000000 \<noteq> 0) = bit w 30"
proof -
  have "(0x00080000 :: u32) = 2 ^ 19" "(0x10000000 :: u32) = 2 ^ 28"
    "(0x00000020 :: u32) = 2 ^ 5" "(0x00010000 :: u32) = 2 ^ 16"
    "(0x40000000 :: u32) = 2 ^ 30"
    by simp_all
  then show "(w AND 0x00080000 \<noteq> 0) = bit w 19"
    and "(w AND 0x10000000 \<noteq> 0) = bit w 28"
    and "(w AND 0x00000020 \<noteq> 0) = bit w 5"
    and "(w AND 0x00010000 \<noteq> 0) = bit w 16"
    and "(w AND 0x40000000 \<noteq> 0) = bit w 30"
    by (simp_all only: and_exp_eq_0_iff_not_bit not_not)
qed

lemma SetDotProduct_sel:
  "DotProduct (SetDotProduct f s) = Some f"
  "dotproduct (SetDotProduct f s) = dotproduct s"
  "tprintf_out (SetDotProduct f s) = tprintf_out s"
  "sse_available (SetDotProduct f s) = sse_available s"
  "avx_available (SetDotProduct f s) = avx_available s"
  "avx2_available (SetDotProduct f s) = avx2_available s"
  "avx512F_available (SetDotProduct f s) = avx512F_available s"
  "avx512BW_available (SetDotProduct f s) = avx512BW_available s"
  by (simp_all add: SetDotProduct_def)

lemma static_init_sel:
  "DotProduct static_init = None" "dotproduct static_init = ''auto''"
  "\<not> sse_available static_init" "\<not> avx_available static_init"
  "\<not> avx2_available static_init" "\<not> avx512F_available static_init"
  "\<not> avx512BW_available static_init" "tprintf_out static_init = []"
  by (simp_all add: static_init_def)

lemma detect_gnuc_frame:
  "DotProduct (detect_gnuc c s) = DotProduct s"
  "dotproduct (detect_gnuc c s) = dotproduct s"
  "tprintf_out (detect_gnuc c s) = tprintf_out s"
  by (simp_all add: detect_gnuc_def Let_def split: option.splits)

lemma detect_win32_frame:
  "DotProduct (detect_win32 c s) = DotProduct s"
  "dotproduct (detect_win32 c s) = dotproduct s"
  "tprintf_out (detect_win32 c s) = tprintf_out s"
  by (simp_all add: detect_win32_def Let_def)

lemma detect_gnuc_flags:
  "sse_available (detect_gnuc c s) =
     (case get_cpuid c 1 of None \<Rightarrow> sse_available s | Some r \<Rightarrow> bit (ecx r) 19)"
  "avx_available (detect_gnuc c s) =
     (case get_cpuid c 1 of None \<Rightarrow> avx_available s | Some r \<Rightarrow> bit (ecx r) 28)"
  "avx2_available (detect_gnuc c s) =
     (case get_cpuid c 1 of None \<Rightarrow> avx2_available s
      | Some r \<Rightarrow> if bit (ecx r) 28 then bit (ebx (cpuid_count c 7 0)) 5
                  else avx2_available s)"
  "avx512F_available (detect_gnuc c s) =
     (case get_cpuid c 1 of None \<Rightarrow> avx512F_available s
      | Some r \<Rightarrow> if bit (ecx r) 28 then bit (ebx (cpuid_count c 7 0)) 16
                  else avx512F_available s)"
  "avx512BW_available (detect_gnuc c s) =
     (case get_cpuid c 1 of None \<Rightarrow> avx512BW_available s
      | Some r \<Rightarrow> if bit (ecx r) 28 then bit (ebx (cpuid_count c 7 0)) 30
                  else avx512BW_available s)"
  by (simp_all add: detect_gnuc_def Let_def test_bit_mask split: option.splits)

lemma detect_win32_flags:
  "sse_available (detect_win32 c s) =
     (if 1 \<le> sint (eax (cpuid c 0)) then bit (ecx (cpuid c 1)) 19 else sse_available s)"
  "avx_available (detect_win32 c s) =
     (if 1 \<le> sint (eax (cpuid c 0)) then bit (ecx (cpuid c 1)) 28 else avx_available s)"
  "avx2_available (detect_win32 c s) = avx2_available s"
  "avx512F_available (detect_win32 c s) = avx512F_available s"
  "avx512BW_available (detect_win32 c s) = avx512BW_available s"
  by (simp_all add: detect_win32_def Let_def test_bit_mask)

lemma SIMDDetect_flags:
  "sse_available (SIMDDetect b c s) =
     (case b of X86_GNUC \<Rightarrow> sse_available (detect_gnuc c s)
      | X86_WIN32 \<Rightarrow> sse_available (detect_win32 c s) | NOT_X86 \<Rightarrow> sse_available s)"
  "avx_available (SIMDDetect b c s) =
     (case b of X86_GNUC \<Rightarrow> avx_available (detect_gnuc c s)
      | X86_WIN32 \<Rightarrow> avx_available (detect_win32 c s) | NOT_X86 \<Rightarrow> avx_available s)"
  "avx2_available (SIMDDetect b c s) =
     (case b of X86_GNUC \<Rightarrow> avx2_available (detect_gnuc c s)
      | X86_WIN32 \<Rightarrow> avx2_available (detect_win32 c s) | NOT_X86 \<Rightarrow> avx2_available s)"
  "avx512F_available (SIMDDetect b c s) =
     (case b of X86_GNUC \<Rightarrow> avx512F_available (detect_gnuc c s)
      | X86_WIN32 \<Rightarrow> avx512F_available (detect_win32 c s)
      | NOT_X86 \<Rightarrow> avx512F_available s)"
  "avx512BW_available (SIMDDetect b c s) =
     (case b of X86_GNUC \<Rightarrow> avx512BW_available (detect_gnuc c s)
      | X86_WIN32 \<Rightarrow> avx512BW_available (detect_win32 c s)
      | NOT_X86 \<Rightarrow> avx512BW_available s)"
  by (cases b; simp add: SIMDDetect_def Let_def SetDotProduct_sel detect_gnuc_flags
      detect_win32_flags split: option.splits)+

lemma SIMDDetect_DotProduct:
  "DotProduct (SIMDDetect b c s) =
     Some (if X86_BUILD b then
             (if avx_available (SIMDDetect b c s) then DotProductAVX_ptr
              else if sse_available (SIMDDetect b c s) then DotProductSSE_ptr
              else DotProductGeneric_ptr)
           else DotProductGeneric_ptr)"
  by (cases b)
    (simp_all add: SIMDDetect_def Let_def SetDotProduct_sel detect_gnuc_frame
      detect_win32_frame)

section \<open>The generic kernel\<close>












section \<open>Claims\<close>

text \<open>
  C1. The claim has the preference \<open>"auto"\<close> leave both the bound kernel and the
  configuration store as they are. The code keeps the kernel and overwrites the store.
  On a \<open>__GNUC__\<close> x86 build with an AVX processor the constructor binds the AVX kernel
  and the variable holds its default \<open>"auto"\<close>; \<open>Update\<close> then leaves the AVX kernel
  bound and stores \<open>"generic"\<close>, a name that every other branch stores only together
  with the kernel of that name; a second \<open>Update\<close> reads the stored \<open>"generic"\<close> and
  replaces the AVX kernel by the generic one.
\<close>

theorem auto_stores_generic_while_avx_bound:
  "DotProduct (SIMDDetect X86_GNUC avx_cpu static_init) = Some DotProductAVX_ptr \<and>
   dotproduct (SIMDDetect X86_GNUC avx_cpu static_init) = ''auto'' \<and>
   DotProduct (Update X86_GNUC (SIMDDetect X86_GNUC avx_cpu static_init)) =
     Some DotProductAVX_ptr \<and>
   dotproduct (Update X86_GNUC (SIMDDetect X86_GNUC avx_cpu static_init)) = ''generic'' \<and>
   DotProduct (Update X86_GNUC (Update X86_GNUC (SIMDDetect X86_GNUC avx_cpu static_init))) =
     Some DotProductGeneric_ptr"
proof -
  have s0: "SIMDDetect X86_GNUC avx_cpu static_init =
      static_init\<lparr>DotProduct := Some DotProductAVX_ptr, avx_available := True,
        avx2_available := True, sse_available := True\<rparr>"
    by (simp add: SIMDDetect_def detect_gnuc_def SetDotProduct_def avx_cpu_def
        static_init_def)
  have s1: "Update X86_GNUC (SIMDDetect X86_GNUC avx_cpu static_init) =
      static_init\<lparr>DotProduct := Some DotProductAVX_ptr, dotproduct := ''generic'',
        avx_available := True, avx2_available := True, sse_available := True\<rparr>"
    unfolding s0 by (subst Update_auto) (simp_all add: static_init_def c_str_literals)
  have s2: "DotProduct (Update X86_GNUC (Update X86_GNUC
      (SIMDDetect X86_GNUC avx_cpu static_init))) = Some DotProductGeneric_ptr"
    unfolding s1 by (subst Update_generic) (simp_all add: static_init_def c_str_literals)
  have "DotProduct (SIMDDetect X86_GNUC avx_cpu static_init) = Some DotProductAVX_ptr"
    and "dotproduct (SIMDDetect X86_GNUC avx_cpu static_init) = ''auto''"
    by (simp_all add: s0 static_init_sel)
  moreover have
    "DotProduct (Update X86_GNUC (SIMDDetect X86_GNUC avx_cpu static_init)) =
      Some DotProductAVX_ptr"
    and "dotproduct (Update X86_GNUC (SIMDDetect X86_GNUC avx_cpu static_init)) = ''generic''"
    by (simp_all add: s1)
  ultimately show ?thesis
    using s2 by (intro conjI)
qed

text \<open>
  C2. For every preference whose C string is outside the vocabulary accepted on the build
  target, \<open>Update\<close> leaves the bound \<open>DotProduct\<close> unchanged, emits two diagnostic
  lines, the first naming the offending value and the second listing the accepted
  vocabulary, and writes back \<open>"generic"\<close> as the stored value.
\<close>

theorem rejected_preference:
  assumes "c_str x \<notin> set (accepted b)"
  shows "DotProduct (apply_preference b x s) = DotProduct s \<and>
    tprintf_out (apply_preference b x s) =
      tprintf_out s @
        [''Warning, ignoring unsupported config variable value: dotproduct=''
           @ c_str x @ [newline],
         ''Support values for dotproduct:''
           @ concat (map (\<lambda>w. '' '' @ w) (accepted b)) @ ''.'' @ [newline]] \<and>
    dotproduct (apply_preference b x s) = ''generic''"
  using assms by (cases "X86_BUILD b") (simp_all add: apply_rejected accepted_def)

text \<open>
  C2 at \<open>"avx"\<close> and \<open>"sse"\<close> on a build without \<open>X86_BUILD\<close>, where both are
  outside the accepted vocabulary.
\<close>

theorem rejected_preference_witness:
  "c_str ''avx'' \<notin> set (accepted NOT_X86) \<and>
   c_str ''sse'' \<notin> set (accepted NOT_X86) \<and>
   DotProduct (apply_preference NOT_X86 ''avx'' static_init) = DotProduct static_init \<and>
   tprintf_out (apply_preference NOT_X86 ''avx'' static_init) =
     [''Warning, ignoring unsupported config variable value: dotproduct=avx'' @ [newline],
      ''Support values for dotproduct: auto generic native.'' @ [newline]] \<and>
   dotproduct (apply_preference NOT_X86 ''avx'' static_init) = ''generic'' \<and>
   dotproduct (apply_preference NOT_X86 ''sse'' static_init) = ''generic''"
proof -
  have a: "c_str ''avx'' \<notin> set (accepted NOT_X86)"
    by (simp add: c_str_literals accepted_def)
  have b: "c_str ''sse'' \<notin> set (accepted NOT_X86)"
    by (simp add: c_str_literals accepted_def)
  show ?thesis
    using a b rejected_preference [OF a, of static_init]
      rejected_preference [OF b, of static_init]
    by (simp add: c_str_literals accepted_def static_init_def)
qed

text \<open>
  C3. For every build target and every answer of the processor, if \<open>avx_available_\<close>
  is false after the constructor has run on the zero-initialised globals, then
  \<open>avx2_available_\<close>, \<open>avx512F_available_\<close> and \<open>avx512BW_available_\<close> are false
  too.
\<close>

theorem avx2_avx512_gated_by_avx:
  "\<not> avx_available (SIMDDetect b c static_init) \<Longrightarrow>
   \<not> avx2_available (SIMDDetect b c static_init) \<and>
   \<not> avx512F_available (SIMDDetect b c static_init) \<and>
   \<not> avx512BW_available (SIMDDetect b c static_init)"
  by (cases b)
    (simp_all add: SIMDDetect_flags detect_gnuc_flags detect_win32_flags static_init_sel
      split: option.splits if_splits)

text \<open>
  C3 on a processor with SSE4.1 and without AVX, whose leaf 7 has every bit set: the
  leaf is not read.
\<close>

theorem avx2_avx512_gated_by_avx_witness:
  "\<not> avx_available (SIMDDetect X86_GNUC sse_only_cpu static_init) \<and>
   sse_available (SIMDDetect X86_GNUC sse_only_cpu static_init) \<and>
   \<not> avx2_available (SIMDDetect X86_GNUC sse_only_cpu static_init) \<and>
   \<not> avx512F_available (SIMDDetect X86_GNUC sse_only_cpu static_init) \<and>
   \<not> avx512BW_available (SIMDDetect X86_GNUC sse_only_cpu static_init)"
proof -
  have h: "\<not> avx_available (SIMDDetect X86_GNUC sse_only_cpu static_init)"
    by (simp add: SIMDDetect_def detect_gnuc_def SetDotProduct_def sse_only_cpu_def
        static_init_def)
  have "sse_available (SIMDDetect X86_GNUC sse_only_cpu static_init)"
    by (simp add: SIMDDetect_def detect_gnuc_def SetDotProduct_def sse_only_cpu_def
        static_init_def)
  with h avx2_avx512_gated_by_avx [OF h] show ?thesis by simp
qed

text \<open>
  C4. Once the constructor has run, from whatever globals, and after any sequence of
  preferences applied through \<open>Update\<close>, \<open>DotProduct\<close> is not null: it points to
  one of the generic, SSE, AVX and native kernels.
\<close>

theorem DotProduct_always_bound:
  "\<exists>f. DotProduct (apply_all b xs (SIMDDetect b c s)) = Some f \<and>
       f \<in> {DotProductGeneric_ptr, DotProductSSE_ptr, DotProductAVX_ptr,
            DotProductNative_ptr}"
proof -
  have "DotProduct (SIMDDetect b c s) \<noteq> None"
    by (subst SIMDDetect_DotProduct) simp
  then have "DotProduct (apply_all b xs (SIMDDetect b c s)) \<noteq> None"
    by (rule apply_all_DotProduct_bound)
  then obtain f where f: "DotProduct (apply_all b xs (SIMDDetect b c s)) = Some f"
    by blast
  have "f \<in> {DotProductGeneric_ptr, DotProductSSE_ptr, DotProductAVX_ptr,
            DotProductNative_ptr}"
    by (cases f) simp_all
  with f show ?thesis by blast
qed

text \<open>
  C5. The constructor binds \<open>DotProduct\<close> by the flags alone, whatever the state before
  it: on a build with \<open>X86_BUILD\<close> the AVX kernel if \<open>avx_available_\<close>, else the SSE
  kernel if \<open>sse_available_\<close>, else the generic kernel it installed first, and the
  generic kernel on a build without. Started from the zero-initialised flags, with any
  pointer and any configuration value, that is the AVX kernel when CPUID reports AVX,
  else the SSE kernel when it reports SSE4.1, else the generic one.
\<close>

theorem constructor_binds_best_kernel:
  "DotProduct (SIMDDetect b c s) =
     Some
      (if X86_BUILD b then
         (if avx_available (SIMDDetect b c s) then DotProductAVX_ptr
          else if sse_available (SIMDDetect b c s) then DotProductSSE_ptr
          else DotProductGeneric_ptr)
       else DotProductGeneric_ptr) \<and>
   DotProduct (SIMDDetect b c (static_init\<lparr>DotProduct := p, dotproduct := x\<rparr>)) =
     Some
      (if avx_available (SIMDDetect b c (static_init\<lparr>DotProduct := p, dotproduct := x\<rparr>))
       then DotProductAVX_ptr
       else if sse_available (SIMDDetect b c (static_init\<lparr>DotProduct := p, dotproduct := x\<rparr>))
       then DotProductSSE_ptr
       else DotProductGeneric_ptr) \<and>
   DotProduct (SIMDDetect b c (static_init\<lparr>DotProduct := p, dotproduct := x\<rparr>)) =
     Some
      (case b of
         X86_GNUC \<Rightarrow>
           (case get_cpuid c 1 of
              None \<Rightarrow> DotProductGeneric_ptr
            | Some r \<Rightarrow>
                if bit (ecx r) 28 then DotProductAVX_ptr
                else if bit (ecx r) 19 then DotProductSSE_ptr
                else DotProductGeneric_ptr)
       | X86_WIN32 \<Rightarrow>
           if 1 \<le> sint (eax (cpuid c 0)) then
             (if bit (ecx (cpuid c 1)) 28 then DotProductAVX_ptr
              else if bit (ecx (cpuid c 1)) 19 then DotProductSSE_ptr
              else DotProductGeneric_ptr)
           else DotProductGeneric_ptr
       | NOT_X86 \<Rightarrow> DotProductGeneric_ptr)"
proof (intro conjI)
  let ?s = "static_init\<lparr>DotProduct := p, dotproduct := x\<rparr>"
  show "DotProduct (SIMDDetect b c s) =
     Some
      (if X86_BUILD b then
         (if avx_available (SIMDDetect b c s) then DotProductAVX_ptr
          else if sse_available (SIMDDetect b c s) then DotProductSSE_ptr
          else DotProductGeneric_ptr)
       else DotProductGeneric_ptr)"
    by (rule SIMDDetect_DotProduct)
  have flags: "\<not> avx_available ?s" "\<not> sse_available ?s"
    by (simp_all add: static_init_def)
  show "DotProduct (SIMDDetect b c ?s) =
     Some
      (if avx_available (SIMDDetect b c ?s) then DotProductAVX_ptr
       else if sse_available (SIMDDetect b c ?s) then DotProductSSE_ptr
       else DotProductGeneric_ptr)"
  proof (cases "X86_BUILD b")
    case True
    then show ?thesis by (subst SIMDDetect_DotProduct) simp
  next
    case False
    then have "b = NOT_X86" by (cases b) simp_all
    then show ?thesis
      by (simp add: SIMDDetect_def Let_def SetDotProduct_sel static_init_def)
  qed
  show "DotProduct (SIMDDetect b c ?s) =
     Some
      (case b of
         X86_GNUC \<Rightarrow>
           (case get_cpuid c 1 of
              None \<Rightarrow> DotProductGeneric_ptr
            | Some r \<Rightarrow>
                if bit (ecx r) 28 then DotProductAVX_ptr
                else if bit (ecx r) 19 then DotProductSSE_ptr
                else DotProductGeneric_ptr)
       | X86_WIN32 \<Rightarrow>
           if 1 \<le> sint (eax (cpuid c 0)) then
             (if bit (ecx (cpuid c 1)) 28 then DotProductAVX_ptr
              else if bit (ecx (cpuid c 1)) 19 then DotProductSSE_ptr
              else DotProductGeneric_ptr)
           else DotProductGeneric_ptr
       | NOT_X86 \<Rightarrow> DotProductGeneric_ptr)"
    using flags
    by (subst SIMDDetect_DotProduct, cases b)
      (auto simp: SIMDDetect_flags detect_gnuc_flags detect_win32_flags
        split: option.splits)
qed

text \<open>
  C5 on two processors: with AVX the constructor binds the AVX kernel on both x86
  builds, with SSE4.1 and no AVX it binds the SSE kernel, and on a build without
  \<open>X86_BUILD\<close> it binds the generic kernel even on the processor with AVX.
\<close>

theorem constructor_binds_best_kernel_witness:
  "DotProduct (SIMDDetect X86_GNUC avx_cpu static_init) = Some DotProductAVX_ptr \<and>
   DotProduct (SIMDDetect X86_WIN32 avx_cpu static_init) = Some DotProductAVX_ptr \<and>
   DotProduct (SIMDDetect X86_GNUC sse_only_cpu static_init) = Some DotProductSSE_ptr \<and>
   DotProduct (SIMDDetect X86_WIN32 sse_only_cpu static_init) = Some DotProductSSE_ptr \<and>
   DotProduct (SIMDDetect NOT_X86 avx_cpu static_init) = Some DotProductGeneric_ptr"
proof -
  have s: "static_init\<lparr>DotProduct := None, dotproduct := ''auto''\<rparr> = static_init"
    by (simp add: static_init_def)
  note k = constructor_binds_best_kernel [where s = static_init and p = None
      and x = "''auto''", unfolded s, THEN conjunct2, THEN conjunct2]
  show ?thesis
    by (simp add: k avx_cpu_def sse_only_cpu_def)
qed




text \<open>
  C7. On a build with \<open>X86_BUILD\<close>, \<open>Update\<close> with the preference \<open>"avx"\<close> binds
  the AVX kernel and writes back \<open>"avx"\<close>, and with \<open>"sse"\<close> it binds the SSE kernel
  and writes back \<open>"sse"\<close>, in every state, so whatever the flags say.
\<close>

theorem avx_sse_override_unchecked:
  assumes "X86_BUILD b"
  shows "DotProduct (apply_preference b ''avx'' s) = Some DotProductAVX_ptr \<and>
    dotproduct (apply_preference b ''avx'' s) = ''avx'' \<and>
    DotProduct (apply_preference b ''sse'' s) = Some DotProductSSE_ptr \<and>
    dotproduct (apply_preference b ''sse'' s) = ''sse''"
  using assms by (simp add: apply_avx apply_sse)

text \<open>
  C7 after construction on a processor without AVX: the flag is false, the constructor
  bound the SSE kernel, and \<open>"avx"\<close> still binds the AVX kernel.
\<close>

theorem avx_sse_override_unchecked_witness:
  "X86_BUILD X86_GNUC \<and>
   \<not> avx_available (SIMDDetect X86_GNUC sse_only_cpu static_init) \<and>
   DotProduct (SIMDDetect X86_GNUC sse_only_cpu static_init) = Some DotProductSSE_ptr \<and>
   DotProduct (apply_preference X86_GNUC ''avx'' (SIMDDetect X86_GNUC sse_only_cpu static_init))
     = Some DotProductAVX_ptr \<and>
   dotproduct (apply_preference X86_GNUC ''avx'' (SIMDDetect X86_GNUC sse_only_cpu static_init))
     = ''avx''"
proof -
  have h: "X86_BUILD X86_GNUC" by simp
  have "\<not> avx_available (SIMDDetect X86_GNUC sse_only_cpu static_init) \<and>
    DotProduct (SIMDDetect X86_GNUC sse_only_cpu static_init) = Some DotProductSSE_ptr"
    by (simp add: SIMDDetect_def detect_gnuc_def SetDotProduct_def sse_only_cpu_def
        static_init_def)
  with h avx_sse_override_unchecked
    [OF h, of "SIMDDetect X86_GNUC sse_only_cpu static_init"]
  show ?thesis by simp
qed

text \<open>
  C8. Applying the preference \<open>"sse"\<close> twice in succession gives the same bound kernel
  and the same stored value as applying it once, from every state and on every build
  target.
\<close>

theorem apply_sse_idempotent:
  "DotProduct (apply_preference b ''sse'' (apply_preference b ''sse'' s)) =
     DotProduct (apply_preference b ''sse'' s) \<and>
   dotproduct (apply_preference b ''sse'' (apply_preference b ''sse'' s)) =
     dotproduct (apply_preference b ''sse'' s)"
proof (cases "X86_BUILD b")
  case True
  then show ?thesis by (simp add: apply_sse)
next
  case False
  then have "c_str ''sse'' \<notin> set (accepted b)"
    by (simp add: accepted_def c_str_literals)
  then show ?thesis by (simp add: apply_rejected)
qed

text \<open>
  C9. After the constructor has run on the zero-initialised globals, each flag is true
  exactly when the build has detection code, the CPUID query succeeded and the bit of the
  feature is set: bit 19 of \<open>ecx\<close> in leaf 1 for SSE4.1, bit 28 for AVX, and, under AVX
  on the \<open>__GNUC__\<close> build, bits 5, 16 and 30 of \<open>ebx\<close> in leaf 7 for AVX2, AVX512F
  and AVX512BW. The constructor is a total function: it has no failing outcome. With
  neither SSE4.1 nor AVX the generic kernel stays bound.
\<close>

theorem flags_only_when_cpuid_confirms:
  "sse_available (SIMDDetect b c static_init) =
     (case b of
        X86_GNUC \<Rightarrow> (case get_cpuid c 1 of None \<Rightarrow> False | Some r \<Rightarrow> bit (ecx r) 19)
      | X86_WIN32 \<Rightarrow> 1 \<le> sint (eax (cpuid c 0)) \<and> bit (ecx (cpuid c 1)) 19
      | NOT_X86 \<Rightarrow> False) \<and>
   avx_available (SIMDDetect b c static_init) =
     (case b of
        X86_GNUC \<Rightarrow> (case get_cpuid c 1 of None \<Rightarrow> False | Some r \<Rightarrow> bit (ecx r) 28)
      | X86_WIN32 \<Rightarrow> 1 \<le> sint (eax (cpuid c 0)) \<and> bit (ecx (cpuid c 1)) 28
      | NOT_X86 \<Rightarrow> False) \<and>
   avx2_available (SIMDDetect b c static_init) =
     (case b of
        X86_GNUC \<Rightarrow> (case get_cpuid c 1 of None \<Rightarrow> False
                     | Some r \<Rightarrow> bit (ecx r) 28 \<and> bit (ebx (cpuid_count c 7 0)) 5)
      | X86_WIN32 \<Rightarrow> False
      | NOT_X86 \<Rightarrow> False) \<and>
   avx512F_available (SIMDDetect b c static_init) =
     (case b of
        X86_GNUC \<Rightarrow> (case get_cpuid c 1 of None \<Rightarrow> False
                     | Some r \<Rightarrow> bit (ecx r) 28 \<and> bit (ebx (cpuid_count c 7 0)) 16)
      | X86_WIN32 \<Rightarrow> False
      | NOT_X86 \<Rightarrow> False) \<and>
   avx512BW_available (SIMDDetect b c static_init) =
     (case b of
        X86_GNUC \<Rightarrow> (case get_cpuid c 1 of None \<Rightarrow> False
                     | Some r \<Rightarrow> bit (ecx r) 28 \<and> bit (ebx (cpuid_count c 7 0)) 30)
      | X86_WIN32 \<Rightarrow> False
      | NOT_X86 \<Rightarrow> False) \<and>
   (\<not> sse_available (SIMDDetect b c static_init) \<and>
    \<not> avx_available (SIMDDetect b c static_init) \<longrightarrow>
      DotProduct (SIMDDetect b c static_init) = Some DotProductGeneric_ptr)"
proof (intro conjI impI)
  show "sse_available (SIMDDetect b c static_init) =
     (case b of
        X86_GNUC \<Rightarrow> (case get_cpuid c 1 of None \<Rightarrow> False | Some r \<Rightarrow> bit (ecx r) 19)
      | X86_WIN32 \<Rightarrow> 1 \<le> sint (eax (cpuid c 0)) \<and> bit (ecx (cpuid c 1)) 19
      | NOT_X86 \<Rightarrow> False)"
    by (cases b)
      (auto simp: SIMDDetect_flags detect_gnuc_flags detect_win32_flags static_init_sel
        split: option.splits)
  show "avx_available (SIMDDetect b c static_init) =
     (case b of
        X86_GNUC \<Rightarrow> (case get_cpuid c 1 of None \<Rightarrow> False | Some r \<Rightarrow> bit (ecx r) 28)
      | X86_WIN32 \<Rightarrow> 1 \<le> sint (eax (cpuid c 0)) \<and> bit (ecx (cpuid c 1)) 28
      | NOT_X86 \<Rightarrow> False)"
    by (cases b)
      (auto simp: SIMDDetect_flags detect_gnuc_flags detect_win32_flags static_init_sel
        split: option.splits)
  show "avx2_available (SIMDDetect b c static_init) =
     (case b of
        X86_GNUC \<Rightarrow> (case get_cpuid c 1 of None \<Rightarrow> False
                     | Some r \<Rightarrow> bit (ecx r) 28 \<and> bit (ebx (cpuid_count c 7 0)) 5)
      | X86_WIN32 \<Rightarrow> False
      | NOT_X86 \<Rightarrow> False)"
    by (cases b)
      (auto simp: SIMDDetect_flags detect_gnuc_flags detect_win32_flags static_init_sel
        split: option.splits)
  show "avx512F_available (SIMDDetect b c static_init) =
     (case b of
        X86_GNUC \<Rightarrow> (case get_cpuid c 1 of None \<Rightarrow> False
                     | Some r \<Rightarrow> bit (ecx r) 28 \<and> bit (ebx (cpuid_count c 7 0)) 16)
      | X86_WIN32 \<Rightarrow> False
      | NOT_X86 \<Rightarrow> False)"
    by (cases b)
      (auto simp: SIMDDetect_flags detect_gnuc_flags detect_win32_flags static_init_sel
        split: option.splits)
  show "avx512BW_available (SIMDDetect b c static_init) =
     (case b of
        X86_GNUC \<Rightarrow> (case get_cpuid c 1 of None \<Rightarrow> False
                     | Some r \<Rightarrow> bit (ecx r) 28 \<and> bit (ebx (cpuid_count c 7 0)) 30)
      | X86_WIN32 \<Rightarrow> False
      | NOT_X86 \<Rightarrow> False)"
    by (cases b)
      (auto simp: SIMDDetect_flags detect_gnuc_flags detect_win32_flags static_init_sel
        split: option.splits)
  show "DotProduct (SIMDDetect b c static_init) = Some DotProductGeneric_ptr"
    if "\<not> sse_available (SIMDDetect b c static_init) \<and>
      \<not> avx_available (SIMDDetect b c static_init)"
    using that by (subst SIMDDetect_DotProduct) simp
qed

text \<open>
  C9 on a build without \<open>X86_BUILD\<close>, where no flag is set and the generic kernel is
  bound, and on the \<open>_WIN32\<close> build with SSE4.1 reported.
\<close>

theorem flags_only_when_cpuid_confirms_witness:
  "\<not> sse_available (SIMDDetect NOT_X86 sse_only_cpu static_init) \<and>
   \<not> avx_available (SIMDDetect NOT_X86 sse_only_cpu static_init) \<and>
   DotProduct (SIMDDetect NOT_X86 sse_only_cpu static_init) = Some DotProductGeneric_ptr \<and>
   sse_available (SIMDDetect X86_WIN32 sse_only_cpu static_init)"
  using flags_only_when_cpuid_confirms [of NOT_X86 sse_only_cpu]
    flags_only_when_cpuid_confirms [of X86_WIN32 sse_only_cpu]
  by (simp add: sse_only_cpu_def)

text \<open>
  C10. After every call of \<open>Update\<close>, whatever the stored value was, the stored value
  is one of \<open>"generic"\<close>, \<open>"native"\<close>, \<open>"avx"\<close> and \<open>"sse"\<close>; it is never
  \<open>"auto"\<close>, and when the input was rejected it is not the input.
\<close>

theorem stored_value_is_concrete_method:
  "dotproduct (Update b s) \<in> {''generic'', ''native'', ''avx'', ''sse''} \<and>
   dotproduct (Update b s) \<noteq> ''auto'' \<and>
   (c_str (dotproduct s) \<notin> set (accepted b) \<longrightarrow> dotproduct (Update b s) \<noteq> dotproduct s)"
proof -
  have "dotproduct (Update b s) \<in> {''generic'', ''native'', ''avx'', ''sse''}"
    by (rule Update_cases [where s = s and b = b])
      (simp_all add: Update_auto Update_generic Update_native Update_avx Update_sse
        Update_rejected)
  moreover have "dotproduct (Update b s) \<noteq> dotproduct s"
    if "c_str (dotproduct s) \<notin> set (accepted b)"
  proof
    assume "dotproduct (Update b s) = dotproduct s"
    with that have "dotproduct s = ''generic''" by (simp add: Update_rejected)
    with that show False by (simp add: accepted_def c_str_literals)
  qed
  ultimately show ?thesis by auto
qed

text \<open>
  C10 at the rejected input \<open>"fastest"\<close>: the stored value becomes \<open>"generic"\<close>.
\<close>

theorem stored_value_is_concrete_method_witness:
  "c_str ''fastest'' \<notin> set (accepted X86_GNUC) \<and>
   dotproduct (Update X86_GNUC (static_init\<lparr>dotproduct := ''fastest''\<rparr>)) = ''generic'' \<and>
   dotproduct (Update X86_GNUC (static_init\<lparr>dotproduct := ''fastest''\<rparr>)) \<noteq> ''fastest''"
  using stored_value_is_concrete_method [of X86_GNUC "static_init\<lparr>dotproduct := ''fastest''\<rparr>"]
  by (simp add: Update_def string_of_def set_value_def tprintf_def c_str_def NUL_def
      accepted_def)

end
